theory Spec2Isabelle
  imports Complex_Main "HOL-Library.List_Lexorder" "HOL-Library.Char_ord"
begin

section \<open>Python strings\<close>

text \<open>
  A Python \<open>str\<close> is modelled as a \<open>string\<close>, one \<open>char\<close> per code point, for code points
  below 256 (Latin-1). \<open>sorted\<close> on strings compares code points lexicographically, which is
  the order of \<open>List_Lexorder\<close> over \<open>Char_ord\<close>.
\<close>

definition is_space :: "char \<Rightarrow> bool" where
  \<comment> \<open>\<open>str.isspace\<close> and the regex class \<open>\s\<close> on one character\<close>
  "is_space c =
     (let n = (of_char c :: nat)
      in (9 \<le> n \<and> n \<le> 13) \<or> (28 \<le> n \<and> n \<le> 32) \<or> n = 133 \<or> n = 160)"

definition is_digit :: "char \<Rightarrow> bool" where
  \<comment> \<open>the regex class \<open>\d\<close> on one character\<close>
  "is_digit c = (let n = (of_char c :: nat) in 48 \<le> n \<and> n \<le> 57)"

definition lower_char :: "char \<Rightarrow> char" where
  "lower_char c =
     (let n = (of_char c :: nat)
      in if (65 \<le> n \<and> n \<le> 90) \<or> (192 \<le> n \<and> n \<le> 222 \<and> n \<noteq> 215)
         then char_of (n + 32) else c)"

definition py_lower :: "string \<Rightarrow> string" where
  "py_lower s = map lower_char s"

definition py_strip :: "string \<Rightarrow> string" where
  "py_strip s = rev (dropWhile is_space (rev (dropWhile is_space s)))"

definition startswith :: "string \<Rightarrow> string \<Rightarrow> bool" where
  "startswith s p = (take (length p) s = p)"

definition endswith :: "string \<Rightarrow> string \<Rightarrow> bool" where
  "endswith s p = (length p \<le> length s \<and> drop (length s - length p) s = p)"

fun str_in :: "string \<Rightarrow> string \<Rightarrow> bool" where
  \<comment> \<open>\<open>sub in s\<close>\<close>
  "str_in sub [] = (sub = [])"
| "str_in sub (c # cs) = (startswith (c # cs) sub \<or> str_in sub cs)"

section \<open>Reference tables (industry\_data.py)\<close>

text \<open>
  Of the skill dictionaries only the keys are read by the functions below; they are kept in
  insertion order, which is the iteration order of a Python dict.
\<close>

definition TECHNICAL_SKILLS :: "string list" where
  "TECHNICAL_SKILLS =
    [''Python'', ''JavaScript'', ''Java'', ''TypeScript'', ''SQL'', ''C++'', ''C#'', ''Go'', ''Rust'',
     ''React'', ''Vue'', ''Angular'', ''HTML'', ''CSS'', ''Tailwind CSS'', ''Next.js'',
     ''Node.js'', ''Django'', ''Flask'', ''Spring Boot'', ''FastAPI'', ''MongoDB'', ''PostgreSQL'',
     ''MySQL'', ''Redis'',
     ''AWS'', ''Azure'', ''Google Cloud'', ''Docker'', ''Kubernetes'', ''Terraform'', ''Ansible'',
     ''Jenkins'', ''GitLab'', ''GitHub'',
     ''Machine Learning'', ''Deep Learning'', ''TensorFlow'', ''PyTorch'', ''LLM'', ''Generative AI'',
     ''Computer Vision'', ''NLP'',
     ''Pandas'', ''NumPy'', ''Spark'', ''Hadoop'', ''Airflow'', ''Kafka'', ''dbt'',
     ''Git'', ''REST API'', ''GraphQL'', ''Microservices'', ''System Design'',
     ''Swift'', ''Kotlin'', ''Agile'', ''iOS'', ''Android'']"

definition SOFT_SKILLS :: "string list" where
  "SOFT_SKILLS =
    [''Communication'', ''Leadership'', ''Problem Solving'', ''Teamwork'', ''Project Management'',
     ''Critical Thinking'', ''Adaptability'', ''Creativity'', ''Time Management'', ''Mentoring'',
     ''Negotiation'', ''Strategic Thinking'']"

definition CREATIVE_SKILLS :: "string list" where
  "CREATIVE_SKILLS =
    [''Premiere Pro'', ''After Effects'', ''DaVinci Resolve'', ''Final Cut Pro'', ''Video Editing'',
     ''Motion Graphics'', ''Color Grading'', ''Photoshop'', ''Illustrator'', ''Figma'', ''Adobe XD'',
     ''Canva'', ''Graphic Design'', ''UI Design'', ''UX Design'', ''Content Writing'',
     ''Copywriting'', ''SEO'', ''Google Analytics'', ''Social Media Marketing'',
     ''Digital Marketing'', ''Email Marketing'', ''Video Production'', ''Cinematography'',
     ''Sound Design'', ''3D Modeling'', ''Blender'', ''Documentation'', ''Technical Writing'']"

definition SKILL_ALIASES :: "(string \<times> string list) list" where
  "SKILL_ALIASES =
    [(''python'', [''py'', ''python3'', ''python 3'']),
     (''javascript'', [''js'', ''node'', ''nodejs'']),
     (''typescript'', [''ts'']),
     (''c++'', [''cpp'', ''c plus plus'']),
     (''c#'', [''csharp'', ''c sharp'']),
     (''sql'', [''mysql'', ''postgresql'', ''sqlite'']),
     (''react'', [''reactjs'', ''react.js'']),
     (''aws'', [''amazon web services'', ''amazon aws'']),
     (''gcp'', [''google cloud'', ''google cloud platform'']),
     (''ml'', [''machine learning'', ''ml/ai'']),
     (''nlp'', [''natural language processing'']),
     (''cicd'', [''ci/cd'', ''continuous integration'', ''continuous deployment'']),
     (''rest'', [''rest api'', ''restful'']),
     (''oop'', [''object oriented programming''])]"

section \<open>Normalization and alias resolution (utils.py)\<close>

definition normalize_skill :: "string \<Rightarrow> string" where
  "normalize_skill skill = py_strip (py_lower skill)"

definition expand_skill_with_aliases :: "string \<Rightarrow> string list" where
  "expand_skill_with_aliases skill =
     (let skill_norm = normalize_skill skill
      in case map_of SKILL_ALIASES skill_norm of
           Some aliases \<Rightarrow> skill_norm # aliases
         | None \<Rightarrow>
             (case find (\<lambda>(main_skill, aliases). skill_norm \<in> set aliases) SKILL_ALIASES of
                Some (main_skill, aliases) \<Rightarrow> main_skill # aliases
              | None \<Rightarrow> [skill_norm]))"

section \<open>Skill extraction\<close>

definition alias_hit :: "string \<Rightarrow> string \<Rightarrow> string \<Rightarrow> bool" where
  \<comment> \<open>the \<open>if\<close>/\<open>elif\<close>/\<open>elif\<close> chain of the alias loop: does this alias add the skill?\<close>
  "alias_hit text_lower skill_norm alias =
     (if alias \<noteq> skill_norm \<and> str_in ('' '' @ alias @ '' '') ('' '' @ text_lower @ '' '') then True
      else if str_in ('' '' @ alias) text_lower \<or> startswith text_lower alias then True
      else if endswith text_lower ('' '' @ alias) then True
      else False)"

definition skill_detected :: "string \<Rightarrow> string \<Rightarrow> bool" where
  \<comment> \<open>one iteration of the loop over \<open>all_skills\<close>: is \<open>skill\<close> added to \<open>detected_skills\<close>?\<close>
  "skill_detected text_lower skill =
     (let skill_norm = normalize_skill skill
      in str_in skill_norm text_lower
         \<or> list_ex (alias_hit text_lower skill_norm) (expand_skill_with_aliases skill_norm))"

definition extract_skills :: "string \<Rightarrow> string list option \<Rightarrow> string list" where
  \<comment> \<open>\<open>skills = None\<close> selects the technical and soft skills of the taxonomy\<close>
  "extract_skills text skills =
     (if text = [] then []
      else
        let all_skills = (case skills of None \<Rightarrow> TECHNICAL_SKILLS @ SOFT_SKILLS | Some ss \<Rightarrow> ss);
            text_lower = py_lower text
        in sort (remdups (filter (skill_detected text_lower) all_skills)))"

section \<open>Further string operations\<close>

definition upper_char :: "char \<Rightarrow> char" where
  "upper_char c =
     (let n = (of_char c :: nat)
      in if 97 \<le> n \<and> n \<le> 122 then char_of (n - 32) else c)"

definition is_ascii_alpha :: "char \<Rightarrow> bool" where
  "is_ascii_alpha c =
     (let n = (of_char c :: nat) in (65 \<le> n \<and> n \<le> 90) \<or> (97 \<le> n \<and> n \<le> 122))"

fun title_from :: "bool \<Rightarrow> string \<Rightarrow> string" where
  \<comment> \<open>\<open>str.title\<close>: the flag says whether the previous character was a letter. Exact on
      ASCII letters and non-letters, which is all the title patterns below can capture.\<close>
  "title_from prev [] = []"
| "title_from prev (c # cs) =
     (if is_ascii_alpha c
      then (if prev then lower_char c else upper_char c) # title_from True cs
      else c # title_from False cs)"

definition py_title :: "string \<Rightarrow> string" where
  "py_title s = title_from False s"

function collapse_ws :: "string \<Rightarrow> string" where
  \<comment> \<open>\<open>re.sub(r'\s+', ' ', s)\<close>: every maximal run of whitespace becomes one space\<close>
  "collapse_ws [] = []"
| "collapse_ws (c # cs) =
     (if is_space c then CHR '' '' # collapse_ws (dropWhile is_space cs)
      else c # collapse_ws cs)"
  by pat_completeness auto
termination
  by (relation "measure length") (auto simp: length_dropWhile_le less_Suc_eq_le)

fun py_find :: "string \<Rightarrow> string \<Rightarrow> nat option" where
  \<comment> \<open>\<open>s.find(sub)\<close>, with \<open>None\<close> for Python's \<open>-1\<close>\<close>
  "py_find [] sub = (if sub = [] then Some 0 else None)"
| "py_find (c # cs) sub =
     (if startswith (c # cs) sub then Some 0 else map_option Suc (py_find cs sub))"

definition py_slice :: "string \<Rightarrow> nat \<Rightarrow> nat \<Rightarrow> string" where
  \<comment> \<open>\<open>s[start:end]\<close> for non-negative bounds\<close>
  "py_slice s start end = take (end - start) (drop start s)"

function split_from :: "string \<Rightarrow> string \<Rightarrow> string \<Rightarrow> string list" where
  \<comment> \<open>\<open>s.split(sep)\<close> for a non-empty separator; the second argument is the current part,
      reversed\<close>
  "split_from sep cur [] = [rev cur]"
| "split_from sep cur (c # cs) =
     (if sep \<noteq> [] \<and> startswith (c # cs) sep
      then rev cur # split_from sep [] (drop (length sep - 1) cs)
      else split_from sep (c # cur) cs)"
  by pat_completeness auto
termination
  by (relation "measure (\<lambda>(sep, cur, s). length s)") auto

definition py_split :: "string \<Rightarrow> string \<Rightarrow> string list" where
  "py_split s sep = split_from sep [] s"

section \<open>Python values and the regular-expression library\<close>

datatype py_value = PyNone | PyStr string | PyInt int | PyList "py_value list"

text \<open>
  The module \<open>re\<close> is a library outside the repository. Its searches with the longer patterns
  are a parameter of the functions that call them: \<open>search0 pattern ignorecase text\<close> is group
  0 of the leftmost match, \<open>search1\<close> is group 1 of it, \<open>findall\<close> is the list that
  \<open>re.findall\<close> returns. The patterns are passed as the source writes them. The two simple
  patterns \<open>\s+\<close> and \<open>\d+\<close> are modelled directly (\<open>collapse_ws\<close>, \<open>first_digits\<close>).
\<close>

record re_module =
  search0 :: "string \<Rightarrow> bool \<Rightarrow> string \<Rightarrow> string option"
  search1 :: "string \<Rightarrow> bool \<Rightarrow> string \<Rightarrow> string option"
  findall :: "string \<Rightarrow> bool \<Rightarrow> string \<Rightarrow> string list"

definition re_no_match :: re_module where
  \<comment> \<open>a library instance on which no pattern matches, for evaluating examples whose text
      is decided before any search\<close>
  "re_no_match = \<lparr>search0 = (\<lambda>pat ic text. None), search1 = (\<lambda>pat ic text. None),
                  findall = (\<lambda>pat ic text. [])\<rparr>"

abbreviation bsl :: string where
  "bsl \<equiv> [CHR 0x5C]"

section \<open>Job role detection\<close>

definition exact_phrases_non_tech :: "(string \<times> string list) list" where
  "exact_phrases_non_tech =
    [(''Digital Marketing'',
       [''digital marketing'', ''digital marketer'', ''digital markiting'', ''digital markting'',
        ''marketing specialist'', ''performance marketing'', ''growth marketing'', ''online marketing'',
        ''digital marketing manager'', ''dm manager'', ''seo specialist'', ''ppc specialist'',
        ''we are hiring for digital marketing'', ''job for digital marketing'',
        ''role: digital marketing'']),
     (''Video Editor'',
       [''video editor'', ''video editing'', ''video edit'', ''we are hiring video editor'',
        ''looking for video editor'']),
     (''Graphic Designer'', [''graphic designer'', ''graphic design'', ''visual designer'']),
     (''Content Writer'', [''content writer'', ''content writing'', ''content creator'', ''copywriter'']),
     (''Social Media Manager'',
       [''social media manager'', ''social media specialist'', ''smm '', ''social media marketing'',
        ''social media coordinator'', ''community manager'']),
     (''UX Designer'', [''ux designer'', ''ux design'', ''user experience designer'']),
     (''UI Designer'', [''ui designer'', ''ui design'', ''user interface designer'']),
     (''Motion Graphics Designer'', [''motion graphics'', ''motion designer'', ''motion graphics designer'']),
     (''Video Producer'', [''video producer'', ''video production''])]"

definition exact_phrases_tech :: "(string \<times> string list) list" where
  "exact_phrases_tech =
    [(''Product Manager'', [''product manager'', ''product management'', ''pm role'', ''technical product manager'']),
     (''Project Manager'', [''project manager'', ''project management'', ''it project manager'']),
     (''Business Analyst'', [''business analyst'', ''ba role'', ''business analysis'']),
     (''Scrum Master'', [''scrum master'', ''agile coach'', ''scrum master role'']),
     (''DevOps Engineer'', [''devops engineer'', ''dev ops engineer'']),
     (''Cloud Architect'', [''cloud architect'', ''solutions architect'']),
     (''Data Scientist'', [''data scientist'']),
     (''Data Engineer'', [''data engineer'']),
     (''Data Analyst'', [''data analyst'', ''bi analyst'', ''business intelligence analyst'']),
     (''Backend Developer'', [''backend developer'', ''back-end developer'', ''backend engineer'']),
     (''Frontend Developer'', [''frontend developer'', ''front-end developer'', ''frontend engineer'']),
     (''Full Stack Developer'', [''full stack developer'', ''fullstack developer'', ''full stack engineer'']),
     (''iOS Developer'', [''ios developer'', ''ios engineer'', ''swift developer'', ''apple ios'']),
     (''Android Developer'', [''android developer'', ''android engineer'', ''kotlin developer'', ''android app'']),
     (''.NET Developer'', [''.net developer'', ''.net engineer'', ''c# developer'', ''asp.net developer'']),
     (''QA Engineer'', [''qa engineer'', ''quality assurance engineer'', ''test engineer'']),
     (''Security Engineer'', [''security engineer'', ''cybersecurity engineer'']),
     (''Machine Learning Engineer'', [''machine learning engineer'', ''ml engineer'', ''ai engineer'']),
     (''Technical Writer'', [''technical writer'', ''technical writing'', ''documentation writer'']),
     (''Software Engineer'', [''software engineer'', ''software developer'', ''application developer''])]"

definition role_patterns :: "(string \<times> string list) list" where
  "role_patterns =
    [(''DevOps Engineer'',
       [''devops'', ''dev-ops'', ''infrastructure engineer'', ''site reliability engineer'',
        ''sre '', ''kubernetes'', ''docker'', ''terraform'', ''ci/cd'', ''cicd'',
        ''deployment engineer'', ''linux engineer'']),
     (''Cloud Architect'',
       [''cloud architect'', ''cloud infrastructure'', ''aws architect'', ''azure architect'',
        ''gcp architect'', ''cloud solutions'']),
     (''Backend Developer'',
       [''backend'', ''back-end'', ''api development'', ''server-side'', ''server side'',
        ''django developer'', ''flask developer'', ''nodejs developer'', ''node.js developer'',
        ''spring developer'', ''fastapi developer'', ''rest api'', ''microservices'']),
     (''Frontend Developer'',
       [''frontend'', ''front-end'', ''react developer'', ''vue developer'', ''angular developer'',
        ''javascript developer'', ''typescript developer'', ''web developer'', ''frontend engineer'']),
     (''Full Stack Developer'', [''full stack'', ''fullstack'', ''full-stack'', ''full stack engineer'']),
     (''Machine Learning Engineer'',
       [''machine learning'', ''ml engineer'', ''deep learning'', ''neural network'',
        ''tensorflow'', ''pytorch'', ''nlp engineer'', ''computer vision'', ''ai/ml'']),
     (''Data Scientist'',
       [''data scientist'', ''statistical analysis'', ''predictive model'', ''machine learning model'']),
     (''Data Engineer'',
       [''data engineer'', ''etl engineer'', ''data pipeline'', ''big data'', ''spark'',
        ''hadoop'', ''data warehouse'', ''data architecture'']),
     (''Data Analyst'',
       [''data analyst'', ''bi analyst'', ''business intelligence'', ''tableau'', ''power bi'',
        ''analytics engineer'', ''sql analyst'']),
     (''QA Engineer'',
       [''qa engineer'', ''quality assurance'', ''test engineer'', ''test automation'',
        ''automated tester'', ''selenium'', ''quality engineer'']),
     (''Security Engineer'',
       [''security engineer'', ''cybersecurity'', ''infosec'', ''penetration tester'', ''security architect'']),
     (''Product Manager'',
       [''product roadmap'', ''product strategy'', ''product owner'', ''prioritization'', ''user stories'']),
     (''Project Manager'',
       [''project management'', ''pm certification'', ''pmp'', ''stakeholder management'', ''project delivery''])]"

definition title_patterns :: "string list" where
  "title_patterns =
    [''(?:job title|position|role|we are hiring|looking for|hiring)'' @ bsl @ ''s*[:'' @ bsl @ ''-]''
       @ bsl @ ''s*([a-z'' @ bsl @ ''s]+?)(?:'' @ bsl @ ''s*'' @ bsl @ ''-|'' @ bsl @ ''s*'' @ bsl @ ''(|''
       @ bsl @ ''.|$)'',
     ''^([a-z'' @ bsl @ ''s]+?)'' @ bsl @ ''s*['' @ bsl @ ''-'' @ bsl @ ''|]'' @ bsl
       @ ''s*(?:full time|part time|remote)'',
     ''^#?'' @ bsl @ ''s*([a-z][a-z'' @ bsl @ ''s]{3,40}?)(?:'' @ bsl @ ''s+job|'' @ bsl
       @ ''s+position|'' @ bsl @ ''.)'']"

definition first_phrase_role :: "(string \<Rightarrow> string) \<Rightarrow> (string \<times> string list) list \<Rightarrow> string \<Rightarrow> string option" where
  \<comment> \<open>the nested loop over a phrase table: the role of the first group with a phrase in the
      text; \<open>prep\<close> is applied to each phrase before the test\<close>
  "first_phrase_role prep table job_lower =
     map_option fst (find (\<lambda>(role, phrases). list_ex (\<lambda>phrase. str_in (prep phrase) job_lower) phrases) table)"

definition match_count :: "string list \<Rightarrow> string \<Rightarrow> nat" where
  "match_count patterns job_lower = length (filter (\<lambda>pattern. str_in pattern job_lower) patterns)"

definition role_scores :: "string \<Rightarrow> (string \<times> nat) list" where
  \<comment> \<open>the dict \<open>role_scores\<close>, in insertion order; the roles of \<open>role_patterns\<close> are distinct\<close>
  "role_scores job_lower =
     filter (\<lambda>(role, n). n > 0) (map (\<lambda>(role, patterns). (role, match_count patterns job_lower)) role_patterns)"

fun max_by_score :: "(string \<times> nat) list \<Rightarrow> string \<times> nat \<Rightarrow> string" where
  \<comment> \<open>\<open>max(role_scores, key=role_scores.get)\<close>: the first key of maximal score\<close>
  "max_by_score [] best = fst best"
| "max_by_score (x # xs) best = max_by_score xs (if snd x > snd best then x else best)"

fun extract_title :: "re_module \<Rightarrow> string list \<Rightarrow> string \<Rightarrow> string option" where
  \<comment> \<open>the loop over \<open>title_patterns\<close>\<close>
  "extract_title re [] text = None"
| "extract_title re (pat # pats) text =
     (case search1 re pat True text of
        Some g \<Rightarrow>
          (let title = py_strip g
           in if length title \<ge> 4 \<and> length title < 50 \<and> \<not> str_in ''experience'' title
                 \<and> \<not> str_in ''description'' title
              then Some (py_title title)
              else extract_title re pats text)
      | None \<Rightarrow> extract_title re pats text)"

definition detect_role_of_text :: "re_module \<Rightarrow> string \<Rightarrow> string" where
  \<comment> \<open>\<open>detect_job_role\<close> after its guard, on a non-empty string\<close>
  "detect_role_of_text re job_description =
     (let job_lower = collapse_ws (py_strip (py_lower job_description))
      in case first_phrase_role py_strip exact_phrases_non_tech job_lower of
           Some role \<Rightarrow> role
         | None \<Rightarrow>
            (case first_phrase_role id exact_phrases_tech job_lower of
               Some role \<Rightarrow> role
             | None \<Rightarrow>
                (case role_scores job_lower of
                   x # xs \<Rightarrow> max_by_score xs x
                 | [] \<Rightarrow>
                    (case extract_title re title_patterns (take 300 job_lower) of
                       Some title \<Rightarrow> title
                     | None \<Rightarrow> ''Other Role''))))"

fun detect_job_role :: "re_module \<Rightarrow> py_value \<Rightarrow> string" where
  "detect_job_role re (PyStr job_description) =
     (if job_description = [] then ''Software Engineer''
      else detect_role_of_text re job_description)"
| "detect_job_role re v = ''Software Engineer''"

section \<open>Numbers\<close>

text \<open>
  Python floats are modelled by rationals, and \<open>round\<close> rounds to the nearest value, a
  tie to the even neighbour. The match functions compute with exact rationals.

  \<open>predict_salary\<close> takes the rounding of float arithmetic as a parameter \<open>fl\<close>:
  \<open>fl x\<close> is the double nearest to the exact value \<open>x\<close>. A float operation returns
  \<open>fl\<close> of its exact result, a float literal denotes \<open>fl\<close> of its decimal value, and an
  \<open>int\<close> converts to \<open>fl\<close> of itself, or raises OverflowError when it is too large. A
  product beyond the double range is an infinity in Python and raises nothing; it arises
  only below zero and only as the last product of \<open>predict_salary\<close>, where the floor
  replaces it as it replaces every value under the floor.
\<close>

definition py_round :: "rat \<Rightarrow> int" where
  \<comment> \<open>\<open>round(x)\<close>\<close>
  "py_round x =
     (let f = \<lfloor>x\<rfloor>; d = x - of_int f
      in if d < 1 / 2 then f
         else if d > 1 / 2 then f + 1
         else if even f then f else f + 1)"

definition py_round_to :: "rat \<Rightarrow> nat \<Rightarrow> rat" where
  \<comment> \<open>\<open>round(x, ndigits)\<close>\<close>
  "py_round_to x ndigits = of_int (py_round (x * 10 ^ ndigits)) / 10 ^ ndigits"

definition digits_value :: "string \<Rightarrow> int" where
  "digits_value ds = foldl (\<lambda>a c. 10 * a + (int (of_char c) - 48)) 0 ds"

definition int_max_str_digits :: nat where
  \<comment> \<open>the default of \<open>sys.get_int_max_str_digits()\<close> in CPython 3.11 and later\<close>
  "int_max_str_digits = 4300"

definition py_int :: "string \<Rightarrow> int option" where
  \<comment> \<open>\<open>int(s)\<close>, \<open>None\<close> for ValueError: surrounding whitespace, an optional sign, decimal
      digits, no more of them than the interpreter's limit (digit separators are not
      modelled)\<close>
  "py_int s =
     (let t = py_strip s;
          (neg, ds) = (case t of
                         c # cs \<Rightarrow> if c = CHR ''-'' then (True, cs)
                                   else if c = CHR ''+'' then (False, cs) else (False, t)
                       | [] \<Rightarrow> (False, []))
      in if ds \<noteq> [] \<and> list_all is_digit ds \<and> length ds \<le> int_max_str_digits
         then Some (if neg then - digits_value ds else digits_value ds)
         else None)"

definition float_overflows :: "int \<Rightarrow> bool" where
  \<comment> \<open>converting the \<open>int\<close> to a \<open>float\<close> raises OverflowError: the nearest double would be
      beyond the largest one, \<open>2 ^ 1024 - 2 ^ 971\<close>\<close>
  "float_overflows n = (\<bar>n\<bar> \<ge> 2 ^ 1024 - 2 ^ 970)"

definition fl_exact :: "rat \<Rightarrow> rat" where
  \<comment> \<open>arithmetic without rounding error, for evaluating examples whose values are doubles\<close>
  "fl_exact x = x"

definition first_digits :: "string \<Rightarrow> string option" where
  \<comment> \<open>\<open>re.search(r'\d+', s)\<close>: the first maximal run of digits\<close>
  "first_digits s =
     (let ds = takeWhile is_digit (dropWhile (\<lambda>c. \<not> is_digit c) s)
      in if ds = [] then None else Some ds)"

section \<open>Matching and scoring\<close>

definition SKILL_MULTIPLIERS :: "(string \<times> rat) list" where
  "SKILL_MULTIPLIERS =
    [(''machine learning'', 0.12), (''generative ai'', 0.15), (''llm'', 0.13),
     (''kubernetes'', 0.10), (''aws'', 0.10), (''azure'', 0.09),
     (''python'', 0.08), (''docker'', 0.07), (''go'', 0.08), (''rust'', 0.08),
     (''system design'', 0.10), (''architecture'', 0.09), (''leadership'', 0.07),
     (''javascript'', 0.05), (''java'', 0.05), (''sql'', 0.04), (''react'', 0.06),
     (''terraform'', 0.06),
     (''communication'', 0.03), (''project management'', 0.04)]"

datatype job_requirements = ReqText string | ReqList "string list"

definition required_skills_of :: "job_requirements \<Rightarrow> string list" where
  \<comment> \<open>the \<open>isinstance(job_requirements, str)\<close> branch at the head of both match functions\<close>
  "required_skills_of job_requirements =
     (case job_requirements of
        ReqText t \<Rightarrow> extract_skills t None
      | ReqList l \<Rightarrow> l)"

record match_result =
  percentage :: rat
  matched :: "string list"
  missing :: "string list"

definition calculate_match :: "string list \<Rightarrow> job_requirements \<Rightarrow> match_result" where
  \<comment> \<open>sets are duplicate-free lists; the order of \<open>list(missing)\<close> is not fixed by Python,
      here it is the order of first occurrence in the requirements\<close>
  "calculate_match resume_skills job_requirements =
     (let required_skills = required_skills_of job_requirements
      in if required_skills = [] then \<lparr>percentage = 0, matched = [], missing = []\<rparr>
         else
           let resume_set = remdups (map normalize_skill resume_skills);
               required_set = remdups (map normalize_skill required_skills);
               matched_set = filter (\<lambda>s. s \<in> set required_set) resume_set;
               missing_set = filter (\<lambda>s. s \<notin> set resume_set) required_set;
               match_percentage =
                 (if required_set \<noteq> []
                  then (of_nat (length matched_set) / of_nat (length required_set)) * 100
                  else 0);
               matched_with_case = filter (\<lambda>s. normalize_skill s \<in> set matched_set) resume_skills
           in \<lparr>percentage = py_round_to match_percentage 2, matched = matched_with_case,
               missing = missing_set\<rparr>)"

definition skill_weight :: "string \<Rightarrow> rat" where
  \<comment> \<open>the weight of one required skill in the loop of \<open>calculate_weighted_match_score\<close>\<close>
  "skill_weight req_skill =
     (let req_norm = normalize_skill req_skill;
          multiplier = (case map_of SKILL_MULTIPLIERS req_norm of Some m \<Rightarrow> m | None \<Rightarrow> 1.0)
      in (1.0 + multiplier) * 10)"

definition calculate_weighted_match_score :: "string list \<Rightarrow> job_requirements \<Rightarrow> rat" where
  "calculate_weighted_match_score resume_skills job_requirements =
     (let required_skills = required_skills_of job_requirements
      in if required_skills = [] then 0
         else
           let resume_norm = map normalize_skill resume_skills;
               total_weight = sum_list (map skill_weight required_skills);
               matched_weight =
                 sum_list (map skill_weight
                   (filter (\<lambda>req_skill. normalize_skill req_skill \<in> set resume_norm) required_skills))
           in if total_weight = 0 then 0
              else py_round_to ((matched_weight / total_weight) * 100) 2)"

definition spec_weight :: "string \<Rightarrow> rat" where
  \<comment> \<open>the weight as the specification words it: the premium defaults to 0 when the skill is
      absent from the table\<close>
  "spec_weight req_skill =
     (1 + (case map_of SKILL_MULTIPLIERS (normalize_skill req_skill) of Some m \<Rightarrow> m | None \<Rightarrow> 0)) * 10"

section \<open>Salary prediction\<close>

record salary_band =
  band_min :: rat
  band_avg :: rat
  band_max :: rat

definition INDUSTRY_SALARY_DATA :: "(string \<times> (string \<times> salary_band) list) list" where
  \<comment> \<open>the \<open>locations\<close> entries of the Tech bands are never read\<close>
  "INDUSTRY_SALARY_DATA =
    [(''Tech'',
       [(''Entry Level'', \<lparr>band_min = 65, band_avg = 85, band_max = 110\<rparr>),
        (''Junior'', \<lparr>band_min = 95, band_avg = 130, band_max = 170\<rparr>),
        (''Mid-Level'', \<lparr>band_min = 140, band_avg = 180, band_max = 240\<rparr>),
        (''Senior'', \<lparr>band_min = 190, band_avg = 260, band_max = 380\<rparr>),
        (''Staff+'', \<lparr>band_min = 300, band_avg = 400, band_max = 600\<rparr>)]),
     (''Finance'',
       [(''Entry Level'', \<lparr>band_min = 75, band_avg = 95, band_max = 120\<rparr>),
        (''Junior'', \<lparr>band_min = 120, band_avg = 160, band_max = 210\<rparr>),
        (''Mid-Level'', \<lparr>band_min = 170, band_avg = 220, band_max = 300\<rparr>),
        (''Senior'', \<lparr>band_min = 250, band_avg = 350, band_max = 500\<rparr>)]),
     (''Healthcare Tech'',
       [(''Entry Level'', \<lparr>band_min = 60, band_avg = 78, band_max = 98\<rparr>),
        (''Junior'', \<lparr>band_min = 85, band_avg = 115, band_max = 150\<rparr>),
        (''Mid-Level'', \<lparr>band_min = 120, band_avg = 160, band_max = 210\<rparr>),
        (''Senior'', \<lparr>band_min = 170, band_avg = 230, band_max = 320\<rparr>)]),
     (''Startup'',
       [(''Entry Level'', \<lparr>band_min = 70, band_avg = 90, band_max = 120\<rparr>),
        (''Junior'', \<lparr>band_min = 100, band_avg = 135, band_max = 180\<rparr>),
        (''Mid-Level'', \<lparr>band_min = 150, band_avg = 190, band_max = 260\<rparr>),
        (''Senior'', \<lparr>band_min = 210, band_avg = 290, band_max = 400\<rparr>)])]"

datatype py_error = KeyError | OverflowError

datatype experience_arg =
    ExpInt int
  | ExpText string  \<comment> \<open>any argument that is not an \<open>int\<close>, as \<open>str\<close> prints it\<close>

record salary =
  sal_min :: rat
  sal_avg :: rat
  sal_max :: rat
  level :: string
  currency :: string
  period :: string

definition experience_value :: "experience_arg \<Rightarrow> int" where
  \<comment> \<open>the \<open>try\<close> block at the head of \<open>predict_salary\<close>; every exception gives 0\<close>
  "experience_value experience_years =
     (case experience_years of
        ExpInt n \<Rightarrow> n
      | ExpText s \<Rightarrow>
          (case first_digits s of
             Some ds \<Rightarrow> (case py_int ds of Some n \<Rightarrow> n | None \<Rightarrow> 0)
           | None \<Rightarrow> 0))"

definition level_of :: "int \<Rightarrow> string" where
  "level_of exp_years =
     (if exp_years < 2 then ''Entry Level''
      else if exp_years < 5 then ''Junior''
      else if exp_years < 10 then ''Mid-Level''
      else if exp_years < 15 then ''Senior''
      else ''Staff+'')"

definition education_multiplier :: "(rat \<Rightarrow> rat) \<Rightarrow> string \<Rightarrow> rat" where
  "education_multiplier fl education =
     (if education = ''PhD'' then fl 1.15
      else if education = ''Master'' then fl 1.10
      else if education = ''Bachelor'' then fl 1.05
      else 1.0)"

definition skill_multiplier_of :: "(rat \<Rightarrow> rat) \<Rightarrow> string list \<Rightarrow> rat" where
  \<comment> \<open>the loop over the premium table, one rounded addition per skill of the resume\<close>
  "skill_multiplier_of fl resume_skills =
     (let resume_norm = map normalize_skill resume_skills
      in min 2.0 (foldl (\<lambda>skill_multiplier premium. fl (skill_multiplier + fl premium)) 1.0
                    (map snd (filter (\<lambda>(skill, premium). skill \<in> set resume_norm)
                                SKILL_MULTIPLIERS))))"

definition predict_salary :: "(rat \<Rightarrow> rat) \<Rightarrow> experience_arg \<Rightarrow> string list \<Rightarrow> string \<Rightarrow> string \<Rightarrow> py_error + salary" where
  \<comment> \<open>\<open>industry_data['Mid-Level']\<close> is evaluated before \<open>get\<close> is called, so a table
      without that level raises KeyError. \<open>min(exp, 20) * 0.02\<close> stands after the \<open>try\<close>
      block and converts the \<open>int\<close> to a \<open>float\<close>, so an \<open>int\<close> too large for a double
      raises OverflowError.\<close>
  "predict_salary fl experience_years resume_skills education industry =
     (let exp_years = min (experience_value experience_years) 30
      in case map_of INDUSTRY_SALARY_DATA ''Tech'' of
           None \<Rightarrow> Inl KeyError
         | Some tech \<Rightarrow>
            (let industry_data = (case map_of INDUSTRY_SALARY_DATA industry of
                                    Some d \<Rightarrow> d | None \<Rightarrow> tech);
                 level = level_of exp_years
             in case map_of industry_data ''Mid-Level'' of
                  None \<Rightarrow> Inl KeyError
                | Some mid \<Rightarrow>
                   (let base_salary = (case map_of industry_data level of
                                         Some b \<Rightarrow> b | None \<Rightarrow> mid);
                        skill_multiplier = skill_multiplier_of fl resume_skills;
                        education_mult = education_multiplier fl education
                    in if float_overflows (min exp_years 20) then Inl OverflowError
                       else
                         let exp_mult = fl (1.0 + fl (fl (of_int (min exp_years 20)) * fl 0.02));
                             total_mult = fl (fl (skill_multiplier * education_mult) * exp_mult);
                             min_sal = fl (band_min base_salary * total_mult);
                             avg_sal = fl (band_avg base_salary * total_mult);
                             max_sal = fl (band_max base_salary * total_mult)
                         in Inr \<lparr>sal_min = py_round_to (max 35 min_sal) 0,
                                 sal_avg = py_round_to (max 50 avg_sal) 0,
                                 sal_max = py_round_to (max 70 max_sal) 0,
                                 level = level,
                                 currency = ''USD'',
                                 period = ''annual (2024-2026)''\<rparr>)))"

section \<open>Experience, education and contact details\<close>

definition experience_patterns :: "string list" where
  "experience_patterns =
    [''('' @ bsl @ ''d+)'' @ bsl @ ''s+(?:years?|yrs?)'',
     ''('' @ bsl @ ''d+)'' @ bsl @ ''+'' @ bsl @ ''s+(?:years?|yrs?)'',
     ''(?:since|from)'' @ bsl @ ''s+(?:20'' @ bsl @ ''d{2}|19'' @ bsl @ ''d{2})'']"

definition experience_of_item :: "string \<Rightarrow> int list" where
  \<comment> \<open>the body of the inner loop of \<open>extract_experience\<close>: what one found item appends to
      \<open>matches\<close>; an exception appends nothing\<close>
  "experience_of_item item =
     (if length item = 4
      then (case py_int item of
              Some year \<Rightarrow> (let e = 2026 - year in if 0 < e \<and> e \<le> 60 then [e] else [])
            | None \<Rightarrow> [])
      else (case py_int item of Some n \<Rightarrow> [n] | None \<Rightarrow> []))"

definition extract_experience :: "re_module \<Rightarrow> string \<Rightarrow> int" where
  "extract_experience re text =
     (let matches = concat (map (\<lambda>pattern. concat (map experience_of_item (findall re pattern True text)))
                              experience_patterns)
      in case matches of
           [] \<Rightarrow> 0
         | m # ms \<Rightarrow> min (fold max ms m) 50)"

definition education_mapping :: "(string \<times> string list) list" where
  "education_mapping =
    [(''PhD'', [''phd'', ''doctorate'', ''doctor of philosophy'', ''postdoctoral'']),
     (''Master'', [''master'' @ [CHR 0x27] @ ''?s?'', ''ms'', ''m.s'', ''mba'', ''mtech'', ''m.tech'']),
     (''Bachelor'', [''bachelor'' @ [CHR 0x27] @ ''?s?'', ''bs'', ''b.s'', ''b.tech'', ''btech'', ''bsc'', ''b.sc'']),
     (''Diploma'', [''diploma'', ''associate'', ''a.s'']),
     (''High School'', [''high school'', ''secondary'', ''h.s'', ''hs''])]"

definition extract_education :: "re_module \<Rightarrow> string \<Rightarrow> string" where
  "extract_education re text =
     (let text_lower = py_lower text
      in case find (\<lambda>(degree, patterns).
                      list_ex (\<lambda>pattern. search0 re (bsl @ ''b'' @ pattern @ bsl @ ''b'') False text_lower \<noteq> None)
                        patterns)
                education_mapping of
           Some (degree, patterns) \<Rightarrow> degree
         | None \<Rightarrow> ''Not Mentioned'')"

record contact_info =
  email :: "string option"
  phone :: "string option"
  linkedin :: "string option"

definition extract_contact_info :: "re_module \<Rightarrow> string \<Rightarrow> contact_info" where
  "extract_contact_info re text =
     \<lparr>email = search0 re (bsl @ ''b[A-Za-z0-9._%+-]+@[A-Za-z0-9.-]+'' @ bsl @ ''.[A-Z|a-z]{2,}'' @ bsl @ ''b'')
                False text,
      phone = search0 re (bsl @ ''b'' @ bsl @ ''d{3}[-.]?'' @ bsl @ ''d{3}[-.]?'' @ bsl @ ''d{4}'' @ bsl @ ''b'')
                False text,
      linkedin = search0 re (''linkedin'' @ bsl @ ''.com/in/[A-Za-z0-9-]+'') True text\<rparr>"

definition truthy :: "string option \<Rightarrow> bool" where
  \<comment> \<open>the truth value of a dictionary entry that is \<open>None\<close> or a string\<close>
  "truthy v = (case v of None \<Rightarrow> False | Some s \<Rightarrow> s \<noteq> [])"

section \<open>Resume quality\<close>

record tier_rubric =
  points :: int
  excellent :: int
  good :: int
  acceptable :: int

definition rubric_length :: tier_rubric where
  "rubric_length = \<lparr>points = 15, excellent = 800, good = 600, acceptable = 400\<rparr>"

definition rubric_skills_count :: tier_rubric where
  "rubric_skills_count = \<lparr>points = 15, excellent = 12, good = 8, acceptable = 5\<rparr>"

definition rubric_experience :: tier_rubric where
  "rubric_experience = \<lparr>points = 20, excellent = 5, good = 3, acceptable = 1\<rparr>"

record education_rubric =
  edu_points :: int
  edu_excellent :: "string list"
  edu_good :: "string list"
  edu_acceptable :: "string list"

definition rubric_education :: education_rubric where
  "rubric_education = \<lparr>edu_points = 15, edu_excellent = [''Master'', ''PhD''],
                        edu_good = [''Bachelor''], edu_acceptable = [''Diploma'', ''High School'']\<rparr>"

definition rubric_sections_required :: "string list" where
  "rubric_sections_required = [''experience'', ''education'', ''skills'']"

definition rubric_action_verbs :: "string list" where
  "rubric_action_verbs =
    [''Led'', ''Developed'', ''Managed'', ''Created'', ''Implemented'',
     ''Designed'', ''Built'', ''Improved'', ''Achieved'', ''Optimized'']"

definition rubric_metric_verbs :: "string list" where
  "rubric_metric_verbs = [''increased'', ''reduced'', ''improved'', ''grew'', ''decreased'', ''%'', ''$'']"

function count_from :: "string \<Rightarrow> string \<Rightarrow> nat" where
  \<comment> \<open>\<open>s.count(sub)\<close> for a non-empty \<open>sub\<close>: occurrences that do not overlap, from the left\<close>
  "count_from sub [] = 0"
| "count_from sub (c # cs) =
     (if sub \<noteq> [] \<and> startswith (c # cs) sub
      then Suc (count_from sub (drop (length sub - 1) cs))
      else count_from sub cs)"
  by pat_completeness auto
termination
  by (relation "measure (\<lambda>(sub, s). length s)") auto

definition py_count :: "string \<Rightarrow> string \<Rightarrow> nat" where
  "py_count s sub = (if sub = [] then length s + 1 else count_from sub s)"

definition tier_points :: "tier_rubric \<Rightarrow> int \<Rightarrow> int \<Rightarrow> int \<Rightarrow> int" where
  \<comment> \<open>the four-way chain shared by length, skill count and experience: the rubric's points,
      the two literal lower awards of the source, or nothing\<close>
  "tier_points rubric second third v =
     (if v \<ge> excellent rubric then points rubric
      else if v \<ge> good rubric then second
      else if v \<ge> acceptable rubric then third
      else 0)"

definition education_points :: "string \<Rightarrow> int" where
  "education_points education =
     (if education \<in> set (edu_excellent rubric_education) then edu_points rubric_education
      else if education \<in> set (edu_good rubric_education) then 12
      else if education \<in> set (edu_acceptable rubric_education) then 8
      else 0)"

definition contact_points :: "re_module \<Rightarrow> string \<Rightarrow> int" where
  "contact_points re resume_text =
     (let info = extract_contact_info re resume_text;
          contact_found = length (filter truthy [email info, phone info, linkedin info])
      in if contact_found \<ge> 3 then 10
         else if contact_found \<ge> 2 then 8
         else if contact_found \<ge> 1 then 5
         else 0)"

definition section_points :: "string \<Rightarrow> int" where
  "section_points resume_text =
     (let found_sections = filter (\<lambda>section. str_in (py_lower section) (py_lower resume_text))
                             rubric_sections_required
      in if length found_sections \<ge> 3 then 10
         else if length found_sections \<ge> 2 then 7
         else 3)"

definition verb_points :: "string \<Rightarrow> int" where
  "verb_points resume_text =
     (let verb_count = sum_list (map (\<lambda>verb. py_count (py_lower resume_text) (py_lower verb))
                                   rubric_action_verbs)
      in if verb_count \<ge> 8 then 10
         else if verb_count \<ge> 5 then 7
         else if verb_count \<ge> 2 then 4
         else 0)"

definition metric_points :: "string \<Rightarrow> int" where
  "metric_points resume_text =
     (let metrics_found = sum_list (map (\<lambda>keyword. py_count resume_text keyword) rubric_metric_verbs)
      in if metrics_found \<ge> 5 then 5
         else if metrics_found \<ge> 2 then 3
         else 0)"

definition analyze_resume_quality :: "re_module \<Rightarrow> string \<Rightarrow> string list \<Rightarrow> int \<Rightarrow> string \<Rightarrow> int" where
  \<comment> \<open>the score, first component of the returned triple; the issue list and the analysis map
      are built beside it and never read back. \<open>round(final_score, 1)\<close> of an \<open>int\<close> is that
      \<open>int\<close>.\<close>
  "analyze_resume_quality re resume_text resume_skills experience education =
     (if resume_text = [] then 0
      else
        let total_score =
              tier_points rubric_length 12 8 (int (length resume_text))
            + tier_points rubric_skills_count 12 8 (int (length resume_skills))
            + tier_points rubric_experience 15 10 experience
            + education_points education
            + contact_points re resume_text
            + section_points resume_text
            + verb_points resume_text
            + metric_points resume_text
        in min 100 total_score)"

section \<open>Readability\<close>

fun words_from :: "bool \<Rightarrow> string \<Rightarrow> nat" where
  \<comment> \<open>\<open>len(s.split())\<close>: the number of maximal runs of non-whitespace; the flag says whether
      the previous character was inside a word\<close>
  "words_from inside [] = 0"
| "words_from inside (c # cs) =
     (if is_space c then words_from False cs
      else (if inside then 0 else 1) + words_from True cs)"

definition word_count_of :: "string \<Rightarrow> nat" where
  "word_count_of s = words_from False s"

datatype suggestion = AddContent | TooShort | TooLong | LengthGood

record readability =
  word_count :: nat
  char_count :: nat
  reading_time_mins :: int
  length_ok :: bool
  suggestion :: suggestion  \<comment> \<open>one of the four fixed suggestion texts\<close>

definition get_readability_stats :: "string \<Rightarrow> readability" where
  "get_readability_stats resume_text =
     (if resume_text = []
      then \<lparr>word_count = 0, char_count = 0, reading_time_mins = 0, length_ok = False,
             suggestion = AddContent\<rparr>
      else
        let wc = word_count_of resume_text
        in \<lparr>word_count = wc,
            char_count = length resume_text,
            reading_time_mins = max 1 (py_round (of_nat wc / 200.0)),
            length_ok = (400 \<le> wc \<and> wc \<le> 1200),
            suggestion = (if wc < 400 then TooShort else if wc > 1200 then TooLong else LengthGood)\<rparr>)"

definition spec_reading_time :: "nat \<Rightarrow> int" where
  \<comment> \<open>the reading time as the specification words it: 200 words per minute, rounded up to
      a whole minute, at least 1\<close>
  "spec_reading_time wc = max 1 (\<lceil>of_nat wc / (200::rat)\<rceil>)"

section \<open>Job requirement extraction\<close>

definition requirement_patterns :: "string list" where
  "requirement_patterns =
    [''required skills:'', ''must have:'', ''should have:'', ''preferred skills:'',
     ''looking for:'', ''we need:'', ''seeking:'', ''responsibilities:'', ''qualifications:'',
     ''required:'', ''preferred:'', ''must:'', ''skills needed:'', ''technical skills:'',
     ''you should have:'', ''you will need:'', ''requirement'', ''key skills:'', ''tools:'']"

definition skill_indicators :: "string list" where
  "skill_indicators =
    [''experience with'', ''knowledge of'', ''fluent in'', ''skilled in'',
     ''proficiency'', ''familiar with'', ''expertise in'', ''work with'', ''proficient in'']"

definition role_defaults :: "(string \<times> string list) list" where
  "role_defaults =
    [(''Backend Developer'', [''Python'', ''Django'', ''REST API'', ''PostgreSQL'', ''AWS'', ''SQL'', ''Git'']),
     (''Frontend Developer'', [''React'', ''JavaScript'', ''HTML'', ''CSS'', ''TypeScript'', ''REST API'', ''Git'']),
     (''Full Stack Developer'', [''React'', ''Node.js'', ''Python'', ''SQL'', ''AWS'', ''Git'', ''REST API'', ''HTML'', ''CSS'']),
     (''DevOps Engineer'', [''Docker'', ''Kubernetes'', ''AWS'', ''Jenkins'', ''Terraform'', ''Linux'', ''Git'', ''CI/CD'']),
     (''Cloud Architect'', [''AWS'', ''Azure'', ''Google Cloud'', ''Terraform'', ''System Design'', ''Security'', ''Docker'']),
     (''Data Scientist'', [''Python'', ''Machine Learning'', ''SQL'', ''TensorFlow'', ''Pandas'', ''Statistics'', ''NumPy'', ''Data Analysis'']),
     (''Data Engineer'', [''Python'', ''SQL'', ''Spark'', ''Hadoop'', ''AWS'', ''ETL'', ''Data Pipelines'']),
     (''Data Analyst'', [''SQL'', ''Excel'', ''Tableau'', ''Python'', ''Power BI'', ''Data Analysis'', ''Statistics'']),
     (''QA Engineer'', [''TestNG'', ''Selenium'', ''Automation'', ''Java'', ''Testing'', ''Git'', ''CI/CD'']),
     (''Security Engineer'', [''Linux'', ''Cybersecurity'', ''AWS'', ''Encryption'', ''Penetration Testing'', ''Security'']),
     (''Machine Learning Engineer'', [''Python'', ''Machine Learning'', ''Deep Learning'', ''TensorFlow'', ''PyTorch'', ''SQL'', ''Git'']),
     (''ML Engineer'', [''Python'', ''Machine Learning'', ''Deep Learning'', ''TensorFlow'', ''PyTorch'', ''SQL'']),
     (''Software Engineer'', [''Python'', ''JavaScript'', ''SQL'', ''Git'', ''REST API'', ''Problem Solving'']),
     (''Video Editor'', [''Premiere Pro'', ''After Effects'', ''Video Editing'', ''Motion Graphics'', ''DaVinci Resolve'', ''Color Grading'']),
     (''Graphic Designer'', [''Photoshop'', ''Illustrator'', ''Graphic Design'', ''Figma'', ''Canva'', ''UI Design'']),
     (''Content Writer'', [''Content Writing'', ''Copywriting'', ''SEO'', ''Communication'']),
     (''Digital Marketing'', [''Digital Marketing'', ''SEO'', ''Social Media Marketing'', ''Content Writing'', ''Google Analytics'', ''Email Marketing'']),
     (''Social Media Manager'', [''Social Media Marketing'', ''Content Writing'', ''Communication'', ''Canva'']),
     (''Product Manager'', [''Project Management'', ''Communication'', ''Problem Solving'', ''SQL'', ''Data Analysis'', ''Agile'']),
     (''Project Manager'', [''Project Management'', ''Communication'', ''Leadership'', ''Agile'', ''Problem Solving'']),
     (''Business Analyst'', [''SQL'', ''Excel'', ''Data Analysis'', ''Communication'', ''Problem Solving'']),
     (''Scrum Master'', [''Agile'', ''Project Management'', ''Communication'', ''Leadership'']),
     (''iOS Developer'', [''Swift'', ''iOS'', ''Git'', ''REST API'', ''Problem Solving'']),
     (''Android Developer'', [''Kotlin'', ''Java'', ''Git'', ''REST API'', ''Problem Solving'']),
     (''.NET Developer'', [''C#'', ''SQL'', ''REST API'', ''Git'', ''Problem Solving'']),
     (''Technical Writer'', [''Content Writing'', ''Communication'', ''Documentation'', ''Technical Writing'']),
     (''UX Designer'', [''UX Design'', ''Figma'', ''User Research'', ''Wireframing'', ''Prototyping'']),
     (''UI Designer'', [''UI Design'', ''Figma'', ''Photoshop'', ''Illustrator'', ''Design Systems'']),
     (''Motion Graphics Designer'', [''After Effects'', ''Motion Graphics'', ''Premiere Pro'', ''Cinematography'']),
     (''Video Producer'', [''Video Production'', ''Premiere Pro'', ''Video Editing'', ''Project Management''])]"

definition all_jd_skills :: "string list" where
  "all_jd_skills = TECHNICAL_SKILLS @ SOFT_SKILLS @ CREATIVE_SKILLS"

definition requirement_sections :: "string \<Rightarrow> string list" where
  \<comment> \<open>the first loop: up to 500 characters after the first occurrence of each header\<close>
  "requirement_sections job_description =
     (let job_lower = py_lower job_description
      in concat (map (\<lambda>pattern.
                   if str_in pattern job_lower
                   then (case py_find job_lower pattern of
                           Some idx \<Rightarrow>
                             (let start = idx + length pattern;
                                  end = min (start + 500) (length job_description)
                              in [py_slice job_description start end])
                         | None \<Rightarrow> [])
                   else [])
                 requirement_patterns))"

definition indicator_skills :: "string \<Rightarrow> string list" where
  \<comment> \<open>the loop over \<open>skill_indicators\<close>: skills in the 150 characters after each occurrence\<close>
  "indicator_skills job_lower =
     concat (map (\<lambda>indicator.
               concat (map (\<lambda>part. extract_skills (take 150 part) (Some all_jd_skills))
                         (tl (py_split job_lower indicator))))
             skill_indicators)"

definition jd_extracted_skills :: "string \<Rightarrow> string list" where
  \<comment> \<open>the set \<open>detected_skills\<close> just before the role is detected, as a list of its elements\<close>
  "jd_extracted_skills job_description =
     (let from_sections = concat (map (\<lambda>section. extract_skills section (Some all_jd_skills))
                                    (requirement_sections job_description));
          detected = (if from_sections = [] then extract_skills job_description (Some all_jd_skills)
                      else from_sections)
      in if length (remdups detected) < 5
         then detected @ indicator_skills (py_lower job_description)
         else detected)"

definition extract_job_requirements :: "re_module \<Rightarrow> string \<Rightarrow> string list" where
  "extract_job_requirements re job_description =
     (if job_description = [] \<or> length (py_strip job_description) < 10 then []
      else
        let detected_skills = jd_extracted_skills job_description;
            detected_role = detect_job_role re (PyStr job_description);
            final =
              (case map_of role_defaults detected_role of
                 Some defaults \<Rightarrow>
                   if length (remdups detected_skills) < 6 then detected_skills @ defaults
                   else detected_skills
               | None \<Rightarrow>
                   if detected_skills = [] \<and> detected_role \<noteq> ''Other Role'' then [detected_role]
                   else detected_skills)
        in sort (remdups final))"

section \<open>Batch ranking (app.py)\<close>

datatype pdf_read =
    ReaderError string           \<comment> \<open>\<open>PdfReader\<close> raised; the exception's message\<close>
  | Pages "string option list"   \<comment> \<open>the pages; \<open>None\<close> where \<open>extract_text\<close> raised\<close>

definition extract_text_from_pdf :: "pdf_read \<Rightarrow> string" where
  "extract_text_from_pdf pdf_file =
     (case pdf_file of
        ReaderError e \<Rightarrow> ''Error extracting PDF: '' @ e
      | Pages ps \<Rightarrow>
          if ps = [] then ''Error: PDF has no pages''
          else
            let text = concat (map (\<lambda>page. case page of Some t \<Rightarrow> t @ [CHR 0x0A] | None \<Rightarrow> []) ps)
            in if py_strip text \<noteq> [] then py_strip text else ''Error: Could not extract text'')"

definition default_skills :: "string list" where
  "default_skills =
    [''Python'', ''SQL'', ''Machine Learning'', ''Data Analysis'', ''Java'', ''C++'',
     ''Communication'', ''Excel'', ''Leadership'', ''AWS'', ''React'', ''Node.js'',
     ''Docker'', ''Git'', ''Agile'', ''REST API'', ''JavaScript'', ''TypeScript'']"

record uploaded_file =
  name :: string
  content :: pdf_read

record ranking_row =
  resume :: string
  ats_score :: rat
  job_match :: rat
  quality :: rat
  matched_skills :: nat
  total_skills :: nat

definition ranking_row_of :: "re_module \<Rightarrow> string list \<Rightarrow> string list \<Rightarrow> uploaded_file \<Rightarrow> ranking_row" where
  \<comment> \<open>the body of the loop over \<open>uploaded_files\<close>: the row appended for one file\<close>
  "ranking_row_of re custom_skills job_skills_batch file =
     (let resume_text = extract_text_from_pdf (content file)
      in if startswith resume_text ''Error''
         then \<lparr>resume = name file, ats_score = 0, job_match = 0, quality = 0,
                matched_skills = 0, total_skills = 0\<rparr>
         else
           let all_industry = TECHNICAL_SKILLS @ SOFT_SKILLS;
               resume_skills = sort (remdups (extract_skills resume_text (Some custom_skills)
                                              @ extract_skills resume_text (Some all_industry)));
               m = calculate_match resume_skills (ReqList job_skills_batch);
               quality_score = analyze_resume_quality re resume_text resume_skills
                                 (extract_experience re resume_text) (extract_education re resume_text);
               ats = quality_score
           in \<lparr>resume = name file,
               ats_score = py_round_to (of_int ats) 2,
               job_match = py_round_to (percentage m) 2,
               quality = py_round_to (of_int quality_score) 2,
               matched_skills = length (matched m),
               total_skills = length resume_skills\<rparr>)"

definition ranking_data :: "re_module \<Rightarrow> uploaded_file list \<Rightarrow> string list \<Rightarrow> string \<Rightarrow> ranking_row list" where
  "ranking_data re uploaded_files custom_skills job_description =
     (let extracted = extract_job_requirements re job_description;
          job_skills_batch = (if extracted = [] then default_skills else extracted)
      in map (ranking_row_of re custom_skills job_skills_batch) uploaded_files)"

definition ranking_table :: "re_module \<Rightarrow> uploaded_file list \<Rightarrow> string list \<Rightarrow> string \<Rightarrow> ranking_row list" where
  \<comment> \<open>the data frame sorted by ATS score, highest first; rows of equal score are kept here in
      input order\<close>
  "ranking_table re uploaded_files custom_skills job_description =
     sort_key (\<lambda>row. - ats_score row) (ranking_data re uploaded_files custom_skills job_description)"

section \<open>Facts about strings\<close>

lemma str_in_iff: "str_in sub s \<longleftrightarrow> (\<exists>pre post. s = pre @ sub @ post)"
proof (induction s)
  case Nil
  then show ?case by auto
next
  case (Cons c cs)
  have a: "startswith (c # cs) sub \<longleftrightarrow> (\<exists>post. c # cs = sub @ post)"
    unfolding startswith_def
    by (metis append_eq_conv_conj)
  have b: "(\<exists>pre post. c # cs = pre @ sub @ post) \<longleftrightarrow>
           (\<exists>post. c # cs = sub @ post) \<or> (\<exists>pre post. cs = pre @ sub @ post)"
  proof
    assume "\<exists>pre post. c # cs = pre @ sub @ post"
    then obtain pre post where e: "c # cs = pre @ sub @ post" by blast
    show "(\<exists>post. c # cs = sub @ post) \<or> (\<exists>pre post. cs = pre @ sub @ post)"
    proof (cases pre)
      case Nil
      with e show ?thesis by auto
    next
      case (Cons p ps)
      with e have "cs = ps @ sub @ post" by simp
      then show ?thesis by blast
    qed
  next
    assume "(\<exists>post. c # cs = sub @ post) \<or> (\<exists>pre post. cs = pre @ sub @ post)"
    then show "\<exists>pre post. c # cs = pre @ sub @ post"
    proof
      assume "\<exists>post. c # cs = sub @ post"
      then obtain post where "c # cs = [] @ sub @ post" by auto
      then show ?thesis by blast
    next
      assume "\<exists>pre post. cs = pre @ sub @ post"
      then obtain pre post where "c # cs = (c # pre) @ sub @ post" by auto
      then show ?thesis by blast
    qed
  qed
  show ?case using Cons.IH a b by simp
qed






lemma py_lower_append: "py_lower (a @ b) = py_lower a @ py_lower b"
  by (simp add: py_lower_def)

lemma dropWhile_keeps:
  assumes "\<not> P c"
  shows "\<exists>a'. dropWhile P (a @ c # r) = a' @ c # r"
proof (cases "\<forall>x\<in>set a. P x")
  case True
  then have "dropWhile P (a @ c # r) = [] @ c # r" using assms by (simp add: dropWhile_append)
  then show ?thesis by blast
next
  case False
  then have "dropWhile P (a @ c # r) = dropWhile P a @ c # r" by (auto simp: dropWhile_append)
  then show ?thesis by blast
qed

lemma py_strip_keeps:
  assumes "\<not> is_space c" and "\<not> is_space d"
  shows "\<exists>a' b'. py_strip (a @ c # m @ d # b) = a' @ c # m @ d # b'"
proof -
  obtain a' where 1: "dropWhile is_space (a @ c # m @ d # b) = a' @ c # m @ d # b"
    using dropWhile_keeps [of is_space c, OF assms(1)] by blast
  have "rev (a' @ c # m @ d # b) = rev b @ d # (rev m @ c # rev a')" by simp
  moreover obtain b' where "dropWhile is_space (rev b @ d # (rev m @ c # rev a')) = b' @ d # (rev m @ c # rev a')"
    using dropWhile_keeps [of is_space d, OF assms(2)] by blast
  ultimately have "py_strip (a @ c # m @ d # b) = rev (b' @ d # (rev m @ c # rev a'))"
    unfolding py_strip_def 1 by simp
  then have "py_strip (a @ c # m @ d # b) = a' @ c # m @ d # rev b'" by simp
  then show ?thesis by blast
qed

lemma collapse_ws_append:
  "\<not> is_space c \<Longrightarrow> collapse_ws (a @ c # r) = collapse_ws a @ collapse_ws (c # r)"
proof (induction a rule: collapse_ws.induct)
  case 1
  then show ?case by simp
next
  case (2 x xs)
  show ?case
  proof (cases "is_space x")
    case True
    have "dropWhile is_space (xs @ c # r) = dropWhile is_space xs @ c # r"
      using 2(3) by (auto simp: dropWhile_append)
    then show ?thesis using True 2 by simp
  next
    case False
    then show ?thesis using 2 by simp
  qed
qed

lemma collapse_ws_phrase:
  "\<exists>b'. collapse_ws (''digital marketing manager'' @ b) = ''digital marketing'' @ b'"
  by (simp add: is_space_def)

lemma job_lower_keeps:
  assumes "str_in ''digital marketing manager'' jd"
  shows "str_in ''digital marketing'' (collapse_ws (py_strip (py_lower jd)))"
proof -
  from assms obtain pre post where jd: "jd = pre @ ''digital marketing manager'' @ post"
    unfolding str_in_iff by blast
  have low: "py_lower ''digital marketing manager'' = ''digital marketing manager''"
    by code_simp
  have "py_lower jd = py_lower pre @ ''digital marketing manager'' @ py_lower post"
    unfolding jd py_lower_append low ..
  then have "py_lower jd = py_lower pre @ CHR ''d'' # ''igital marketing manage'' @ CHR ''r'' # py_lower post"
    by simp
  moreover have "\<not> is_space CHR ''d''" "\<not> is_space CHR ''r''" by (simp_all add: is_space_def)
  ultimately obtain a' b' where
    "py_strip (py_lower jd) = a' @ CHR ''d'' # ''igital marketing manage'' @ CHR ''r'' # b'"
    using py_strip_keeps by metis
  then have s: "py_strip (py_lower jd) = a' @ CHR ''d'' # (''igital marketing manager'' @ b')" by simp
  have "collapse_ws (py_strip (py_lower jd)) = collapse_ws a' @ collapse_ws (''digital marketing manager'' @ b')"
    unfolding s using collapse_ws_append [of "CHR ''d''"] by (simp add: is_space_def)
  moreover obtain b'' where "collapse_ws (''digital marketing manager'' @ b') = ''digital marketing'' @ b''"
    using collapse_ws_phrase by blast
  ultimately show ?thesis unfolding str_in_iff by metis
qed

section \<open>Facts about rounding\<close>

lemma py_round_of_int: "py_round (of_int n) = n"
  by (simp add: py_round_def)

lemma py_round_to_100: "py_round_to 100 2 = 100"
proof -
  have "(100::rat) * 10 ^ 2 = of_int 10000" by simp
  then have "py_round ((100::rat) * 10 ^ 2) = 10000" using py_round_of_int [of 10000] by simp
  then show ?thesis by (simp add: py_round_to_def)
qed

lemma floor_le_py_round: "\<lfloor>x\<rfloor> \<le> py_round x"
  by (simp add: py_round_def Let_def)

lemma py_round_to_0_ge:
  assumes "of_int k \<le> x"
  shows "of_int k \<le> py_round_to x 0"
proof -
  have "k \<le> \<lfloor>x\<rfloor>" using assms by (simp add: le_floor_iff)
  then have "k \<le> py_round x" using floor_le_py_round [of x] by linarith
  then show ?thesis by (simp add: py_round_to_def)
qed

lemma py_round_cases:
  obtains f d where "x = of_int f + d" "0 \<le> d" "d < 1"
    "py_round x = (if d < 1 / 2 then f else if d > 1 / 2 then f + 1 else if even f then f else f + 1)"
proof -
  define f where "f = \<lfloor>x\<rfloor>"
  define d where "d = x - of_int f"
  have "x = of_int f + d" by (simp add: d_def)
  moreover have "0 \<le> d" "d < 1" unfolding d_def f_def by linarith+
  moreover have "py_round x = (if d < 1 / 2 then f else if d > 1 / 2 then f + 1 else if even f then f else f + 1)"
    unfolding py_round_def Let_def d_def f_def ..
  ultimately show ?thesis using that by blast
qed

lemma py_round_near: "\<bar>of_int (py_round x) - x\<bar> \<le> 1 / 2"
proof -
  obtain f d where "x = of_int f + d" "0 \<le> d" "d < 1"
    "py_round x = (if d < 1 / 2 then f else if d > 1 / 2 then f + 1 else if even f then f else f + 1)"
    by (rule py_round_cases)
  then show ?thesis by (auto simp: abs_le_iff)
qed

lemma py_round_tie:
  assumes "\<bar>of_int (py_round x) - x\<bar> = 1 / 2"
  shows "even (py_round x)"
proof -
  obtain f d where x: "x = of_int f + d" and d: "0 \<le> d" "d < 1"
    and r: "py_round x = (if d < 1 / 2 then f else if d > 1 / 2 then f + 1 else if even f then f else f + 1)"
    by (rule py_round_cases)
  have "d = 1 / 2"
  proof (rule ccontr)
    assume n: "d \<noteq> 1 / 2"
    show False
    proof (cases "d < 1 / 2")
      case True
      then have "py_round x = f" using r by simp
      with assms x d True show False by (simp add: abs_if split: if_splits)
    next
      case False
      then have "py_round x = f + 1" using r n by simp
      with assms x d False n show False by (simp add: abs_if split: if_splits)
    qed
  qed
  then show ?thesis using r by simp
qed

section \<open>Facts about the experience argument\<close>

lemma foldl_digits_nonneg:
  "0 \<le> a \<Longrightarrow> list_all is_digit ds
     \<Longrightarrow> 0 \<le> foldl (\<lambda>a c. 10 * a + (int (of_char c) - 48)) a ds"
proof (induction ds arbitrary: a)
  case Nil
  then show ?case by simp
next
  case (Cons c cs)
  from Cons.prems(2) have "48 \<le> (of_char c :: nat)" by (simp add: is_digit_def Let_def)
  then have "0 \<le> 10 * a + (int (of_char c) - 48)" using Cons.prems(1) by simp
  moreover have "list_all is_digit cs" using Cons.prems(2) by simp
  ultimately show ?case using Cons.IH by simp
qed

lemma digits_value_nonneg: "list_all is_digit ds \<Longrightarrow> 0 \<le> digits_value ds"
  unfolding digits_value_def by (rule foldl_digits_nonneg) simp_all

lemma digit_not_space: "is_digit c \<Longrightarrow> \<not> is_space c"
  by (auto simp: is_digit_def is_space_def Let_def)

lemma py_strip_digits:
  assumes "list_all is_digit ds"
  shows "py_strip ds = ds"
proof -
  have 1: "dropWhile is_space xs = xs" if "list_all is_digit xs" for xs
    using that by (cases xs) (auto dest: digit_not_space)
  have "list_all is_digit (rev ds)" using assms by (simp add: list_all_iff)
  then show ?thesis unfolding py_strip_def using 1 [OF assms] 1 [of "rev ds"] by simp
qed

lemma py_int_digits_nonneg:
  assumes "list_all is_digit ds" and "py_int ds = Some n"
  shows "0 \<le> n"
proof (cases ds)
  case Nil
  with assms(2) show ?thesis by (simp add: py_int_def py_strip_def)
next
  case (Cons c cs)
  then have "is_digit c" using assms(1) by simp
  then have "c \<noteq> CHR ''-''" "c \<noteq> CHR ''+''" by (auto simp: is_digit_def)
  then have "n = digits_value ds"
    using assms(2) Cons unfolding py_int_def py_strip_digits [OF assms(1)]
    by (simp add: Let_def split: if_splits)
  then show ?thesis using digits_value_nonneg [OF assms(1)] by simp
qed

lemma experience_value_text_nonneg: "0 \<le> experience_value (ExpText s)"
proof (cases "first_digits s")
  case None
  then show ?thesis by (simp add: experience_value_def)
next
  case (Some ds)
  then have d: "list_all is_digit ds"
    unfolding first_digits_def Let_def
    by (auto simp: list_all_iff split: if_splits dest: set_takeWhileD)
  show ?thesis
  proof (cases "py_int ds")
    case None
    with Some show ?thesis by (simp add: experience_value_def)
  next
    case (Some n)
    then have "0 \<le> n" using py_int_digits_nonneg [OF d] by simp
    with Some \<open>first_digits s = Some ds\<close> show ?thesis by (simp add: experience_value_def)
  qed
qed

lemma predict_salary_overflows:
  assumes "n \<le> - (2 ^ 1024 - 2 ^ 970)"
  shows "predict_salary fl (ExpInt n) resume_skills education industry = Inl OverflowError"
proof -
  obtain tech where t: "map_of INDUSTRY_SALARY_DATA ''Tech'' = Some tech"
    by (simp add: INDUSTRY_SALARY_DATA_def)
  define d where "d = (case map_of INDUSTRY_SALARY_DATA industry of Some d \<Rightarrow> d | None \<Rightarrow> tech)"
  have "\<exists>mid. map_of d ''Mid-Level'' = Some mid"
    using t unfolding d_def INDUSTRY_SALARY_DATA_def
    by (auto split: option.splits if_splits)
  then obtain mid where mid: "map_of d ''Mid-Level'' = Some mid" by blast
  have "n < 0" using assms by (simp add: less_le_trans [of n])
  then have e: "min (min (experience_value (ExpInt n)) 30) 20 = n"
    by (simp add: experience_value_def)
  have o: "float_overflows n"
    using assms unfolding float_overflows_def by (simp add: abs_if)
  show ?thesis
    unfolding predict_salary_def Let_def t option.case d_def [symmetric] mid e
    using o by simp
qed

section \<open>Facts about the score categories\<close>


section \<open>Facts about word counts\<close>

lemma words_replicate: "words_from False (concat (replicate n ''word '')) = n"
  by (induction n) (simp_all add: is_space_def)

lemma py_round_54: "py_round (5 / 4) = 1"
  by code_simp

lemma stats_250:
  assumes "word_count_of t = 250"
  shows "word_count (get_readability_stats t) = 250 \<and> reading_time_mins (get_readability_stats t) = 1"
proof -
  have "t \<noteq> []" using assms by (auto simp: word_count_of_def)
  then show ?thesis using assms by (simp add: get_readability_stats_def Let_def py_round_54)
qed

lemma words_replicate_300: "word_count_of (concat (replicate 300 ''word '')) = 300"
  unfolding word_count_of_def by (rule words_replicate)

section \<open>Evaluating the extractor on one job description\<close>

lemma extract_job_requirements_defaults:
  assumes "10 \<le> length (py_strip jd)"
    and "map_of role_defaults (detect_job_role re (PyStr jd)) = Some defs"
    and "length (remdups (jd_extracted_skills jd)) < 6"
  shows "extract_job_requirements re jd = sort (remdups (jd_extracted_skills jd @ defs))"
proof -
  have "jd \<noteq> []" using assms(1) by (auto simp: py_strip_def)
  then show ?thesis
    unfolding extract_job_requirements_def Let_def using assms by simp
qed

lemma extract_job_requirements_unlisted_role:
  assumes "10 \<le> length (py_strip jd)"
    and "map_of role_defaults (detect_job_role re (PyStr jd)) = None"
  shows "extract_job_requirements re jd =
           (if jd_extracted_skills jd = [] \<and> detect_job_role re (PyStr jd) \<noteq> ''Other Role''
            then [detect_job_role re (PyStr jd)]
            else sort (remdups (jd_extracted_skills jd)))"
proof -
  have "jd \<noteq> []" using assms(1) by (auto simp: py_strip_def)
  then show ?thesis
    unfolding extract_job_requirements_def Let_def using assms by simp
qed

lemma ve_role: "detect_job_role re (PyStr ''We need a video editor for our team'') = ''Video Editor''"
  by code_simp

lemma ve_sections: "requirement_sections ''We need a video editor for our team'' = []"
  by code_simp

lemma ve_whole: "extract_skills ''We need a video editor for our team'' (Some all_jd_skills) = []"
  by code_simp

lemma ve_indicators: "indicator_skills (py_lower ''We need a video editor for our team'') = []"
  by code_simp

lemma ve_extracted: "jd_extracted_skills ''We need a video editor for our team'' = []"
  unfolding jd_extracted_skills_def Let_def ve_sections ve_whole ve_indicators by simp

lemma ve_strip: "length (py_strip ''We need a video editor for our team'') = 35"
  by code_simp

lemma ve_defaults: "map_of role_defaults ''Video Editor''
  = Some [''Premiere Pro'', ''After Effects'', ''Video Editing'', ''Motion Graphics'', ''DaVinci Resolve'', ''Color Grading'']"
  by code_simp

lemma ve_sort: "sort (remdups [''Premiere Pro'', ''After Effects'', ''Video Editing'', ''Motion Graphics'', ''DaVinci Resolve'', ''Color Grading''])
  = [''After Effects'', ''Color Grading'', ''DaVinci Resolve'', ''Motion Graphics'',
          ''Premiere Pro'', ''Video Editing'']"
  by code_simp

section \<open>Facts about text extraction\<close>

lemma extract_text_failure_sentinel:
  "startswith (extract_text_from_pdf (ReaderError e)) ''Error''"
  "startswith (extract_text_from_pdf (Pages [])) ''Error''"
  "py_strip (concat (map (\<lambda>page. case page of Some t \<Rightarrow> t @ [CHR 0x0A] | None \<Rightarrow> []) ps)) = []
     \<Longrightarrow> startswith (extract_text_from_pdf (Pages ps)) ''Error''"
  by (simp_all add: extract_text_from_pdf_def startswith_def)

section \<open>Skill extraction: matching\<close>




section \<open>Job role detection: precedence\<close>

text \<open>
  C3: every job description that contains the phrase "digital marketing manager" is
  classified as Digital Marketing, whatever else it contains; Digital Marketing is none of
  the technical roles of the exact-phrase table or of the keyword table.
\<close>

theorem detect_job_role_digital_marketing:
  assumes "str_in ''digital marketing manager'' jd"
  shows "detect_job_role re (PyStr jd) = ''Digital Marketing''
       \<and> detect_job_role re (PyStr jd) \<notin> set (map fst exact_phrases_tech @ map fst role_patterns)"
proof -
  have ne: "jd \<noteq> []" using assms by auto
  have strip: "py_strip ''digital marketing'' = ''digital marketing''" by code_simp
  have "first_phrase_role py_strip exact_phrases_non_tech (collapse_ws (py_strip (py_lower jd)))
          = Some ''Digital Marketing''"
    unfolding first_phrase_role_def exact_phrases_non_tech_def
    using job_lower_keeps [OF assms] by (simp add: strip)
  then have r: "detect_job_role re (PyStr jd) = ''Digital Marketing''"
    using ne by (simp add: detect_role_of_text_def)
  have "''Digital Marketing'' \<notin> set (map fst exact_phrases_tech @ map fst role_patterns)"
    by (simp add: exact_phrases_tech_def role_patterns_def)
  with r show ?thesis by simp
qed

theorem detect_job_role_digital_marketing_witness:
  "str_in ''digital marketing manager'' ''digital marketing manager for our analytics platform''
   \<and> detect_job_role re_no_match (PyStr ''digital marketing manager for our analytics platform'')
       = ''Digital Marketing''"
  using detect_job_role_digital_marketing
    [of "''digital marketing manager for our analytics platform''" re_no_match]
  by (simp add: startswith_def)

text \<open>
  C10: on \<open>None\<close>, on the empty string and on every value that is not a string the
  detector returns "Software Engineer", which is not the fallback "Other Role" of the
  cascade.
\<close>

theorem detect_job_role_guard:
  "detect_job_role re PyNone = ''Software Engineer''
   \<and> detect_job_role re (PyStr []) = ''Software Engineer''
   \<and> detect_job_role re (PyInt n) = ''Software Engineer''
   \<and> detect_job_role re (PyList vs) = ''Software Engineer''
   \<and> ''Software Engineer'' \<noteq> ''Other Role''"
  by simp

section \<open>Requirement extraction and role defaults\<close>

text \<open>
  C4: a job description whose detected role is not a technical role gets no default skills,
  only the skills read from its text, and the role name as a placeholder when nothing was
  read. The description below is classified by the non-technical phrase table as Video
  Editor and names no skill at all; the code returns the six defaults of Video Editor from
  \<open>role_defaults\<close>, not the placeholder.
\<close>

theorem extract_job_requirements_video_editor:
  "detect_job_role re (PyStr ''We need a video editor for our team'') = ''Video Editor''
   \<and> ''Video Editor'' \<in> set (map fst exact_phrases_non_tech)
   \<and> ''Video Editor'' \<notin> set (map fst exact_phrases_tech @ map fst role_patterns)
   \<and> jd_extracted_skills ''We need a video editor for our team'' = []
   \<and> extract_job_requirements re ''We need a video editor for our team''
       = [''After Effects'', ''Color Grading'', ''DaVinci Resolve'', ''Motion Graphics'',
          ''Premiere Pro'', ''Video Editing'']"
proof -
  have a: "10 \<le> length (py_strip ''We need a video editor for our team'')"
    unfolding ve_strip by simp
  have b: "map_of role_defaults (detect_job_role re (PyStr ''We need a video editor for our team''))
       = Some [''Premiere Pro'', ''After Effects'', ''Video Editing'', ''Motion Graphics'',
               ''DaVinci Resolve'', ''Color Grading'']"
    unfolding ve_role by (rule ve_defaults)
  have c: "length (remdups (jd_extracted_skills ''We need a video editor for our team'')) < 6"
    unfolding ve_extracted by simp
  have r: "extract_job_requirements re ''We need a video editor for our team''
       = [''After Effects'', ''Color Grading'', ''DaVinci Resolve'', ''Motion Graphics'',
          ''Premiere Pro'', ''Video Editing'']"
    unfolding extract_job_requirements_defaults [OF a b c] ve_extracted append_Nil ve_sort ..
  have t: "''Video Editor'' \<in> set (map fst exact_phrases_non_tech)
           \<and> ''Video Editor'' \<notin> set (map fst exact_phrases_tech @ map fst role_patterns)"
    by code_simp
  from ve_role ve_extracted r t show ?thesis by blast
qed

section \<open>Plain and weighted match\<close>

text \<open>
  C5: matching a non-empty skill list against itself gives 100 percent, the list itself
  in its original casing as the matched list, and an empty missing list.
\<close>

theorem calculate_match_self:
  assumes "X \<noteq> []"
  shows "calculate_match X (ReqList X) = \<lparr>percentage = 100, matched = X, missing = []\<rparr>"
proof -
  have ne: "map normalize_skill X \<noteq> []" using assms by simp
  have len: "length (remdups (map normalize_skill X)) > 0" using assms by (cases X) auto
  have m: "filter (\<lambda>s. s \<in> normalize_skill ` set X) (remdups (map normalize_skill X))
             = remdups (map normalize_skill X)"
    by (simp add: filter_id_conv)
  have pct: "rat_of_nat (length (remdups (map normalize_skill X))) * 100
               / rat_of_nat (length (remdups (map normalize_skill X))) = 100"
    using len by simp
  show ?thesis
    unfolding calculate_match_def required_skills_of_def Let_def
    using assms by (simp add: m pct py_round_to_100 filter_id_conv filter_empty_conv)
qed


theorem calculate_match_self_witness:
  "[''Python'', ''SQL'', ''python''] \<noteq> []
   \<and> calculate_match [''Python'', ''SQL'', ''python''] (ReqList [''Python'', ''SQL'', ''python''])
       = \<lparr>percentage = 100, matched = [''Python'', ''SQL'', ''python''], missing = []\<rparr>"
  using calculate_match_self [of "[''Python'', ''SQL'', ''python'']"] by simp

text \<open>
  C2: the weight of a required skill is (1 + premium) times 10 with premium 0 for a skill
  absent from the premium table. The code looks the premium up with default 1.0: the absent
  skill Excel weighs 20, not 10, more than Python with its premium, and the score of a
  resume with Python against Python and Excel is 35.06, not 10.8 / 20.8 of 100.
\<close>

theorem weighted_match_default_premium:
  "map_of SKILL_MULTIPLIERS (normalize_skill ''Excel'') = None
   \<and> skill_weight ''Excel'' = 20
   \<and> spec_weight ''Excel'' = 10
   \<and> skill_weight ''Python'' = 108 / 10
   \<and> calculate_weighted_match_score [''Python''] (ReqList [''Python'', ''Excel'']) = 3506 / 100"
  by code_simp

section \<open>Salary floors\<close>

text \<open>
  C6 (as stated): for every input, negative or absurdly large experience values included,
  the prediction has minimum at least 35, average at least 50 and maximum at least 70. For
  the integer experience \<open>- (10 ^ 309)\<close> the code returns nothing: the product
  \<open>min(exp, 20) * 0.02\<close> cannot convert the integer to a float and raises OverflowError.
\<close>

theorem predict_salary_overflow_counterexample:
  "predict_salary fl_exact (ExpInt (- (10 ^ 309))) [''Python''] ''Master'' ''Tech'' = Inl OverflowError"
proof -
  have t: "map_of INDUSTRY_SALARY_DATA ''Tech'' \<noteq> None"
    by (simp add: INDUSTRY_SALARY_DATA_def)
  have m: "map_of (the (map_of INDUSTRY_SALARY_DATA ''Tech'')) ''Mid-Level'' \<noteq> None"
    by (simp add: INDUSTRY_SALARY_DATA_def)
  have e: "min (min (experience_value (ExpInt (- (10 ^ 309)))) 30) 20 = - (10 ^ 309)"
    by (simp add: experience_value_def)
  have o: "float_overflows (- (10 ^ 309))"
    by (simp add: float_overflows_def)
  show ?thesis
    unfolding predict_salary_def Let_def e using t m o by (auto split: option.splits)
qed

text \<open>
  C6 (amended): for every experience argument that is not an integer and for every
  integer above \<open>- (2 ^ 1024 - 2 ^ 970)\<close>, the integers whose product with 0.02 converts
  to a float (so every negative value down to that bound and every absurdly large positive
  value), for every skill list, education and industry, and whatever the rounding of the
  float operations, the prediction is returned and its minimum is at least 35, its average
  at least 50 and its maximum at least 70.
\<close>

theorem predict_salary_floor:
  assumes "case experience_years of ExpInt n \<Rightarrow> - (2 ^ 1024 - 2 ^ 970) < n | ExpText s \<Rightarrow> True"
  shows "\<exists>r. predict_salary fl experience_years resume_skills education industry = Inr r
       \<and> 35 \<le> sal_min r \<and> 50 \<le> sal_avg r \<and> 70 \<le> sal_max r"
proof -
  have ev: "- (2 ^ 1024 - 2 ^ 970) < experience_value experience_years"
  proof (cases experience_years)
    case (ExpInt n)
    with assms show ?thesis by (simp add: experience_value_def)
  next
    case (ExpText s)
    have neg: "- (2 ^ 1024 - 2 ^ 970) < (0::int)" by simp
    have nn: "0 \<le> experience_value experience_years"
      unfolding ExpText by (rule experience_value_text_nonneg)
    show ?thesis by (rule less_le_trans [OF neg nn])
  qed
  obtain tech where t: "map_of INDUSTRY_SALARY_DATA ''Tech'' = Some tech"
    by (simp add: INDUSTRY_SALARY_DATA_def)
  define d where "d = (case map_of INDUSTRY_SALARY_DATA industry of Some d \<Rightarrow> d | None \<Rightarrow> tech)"
  have "\<exists>mid. map_of d ''Mid-Level'' = Some mid"
    using t unfolding d_def INDUSTRY_SALARY_DATA_def
    by (auto split: option.splits if_splits)
  then obtain mid where mid: "map_of d ''Mid-Level'' = Some mid" by blast
  have no: "\<not> float_overflows (min (min (experience_value experience_years) 30) 20)"
    using ev unfolding float_overflows_def by (simp add: min_def abs_if)
  have a: "(35::rat) \<le> py_round_to (max 35 x) 0" for x
    using py_round_to_0_ge [of 35 "max 35 x"] by simp
  have b: "(50::rat) \<le> py_round_to (max 50 x) 0" for x
    using py_round_to_0_ge [of 50 "max 50 x"] by simp
  have c: "(70::rat) \<le> py_round_to (max 70 x) 0" for x
    using py_round_to_0_ge [of 70 "max 70 x"] by simp
  show ?thesis
    unfolding predict_salary_def Let_def t option.case d_def [symmetric] mid
    using a b c no by simp
qed

theorem predict_salary_floor_witness:
  "(case ExpInt (- 1000) of ExpInt n \<Rightarrow> - (2 ^ 1024 - 2 ^ 970) < n | ExpText s \<Rightarrow> True)
   \<and> (\<exists>r. predict_salary fl_exact (ExpInt (- 1000)) [''Python''] ''PhD'' ''Finance'' = Inr r
         \<and> 35 \<le> sal_min r \<and> 50 \<le> sal_avg r \<and> 70 \<le> sal_max r)"
proof -
  have h: "case ExpInt (- 1000) of ExpInt n \<Rightarrow> - (2 ^ 1024 - 2 ^ 970) < n | ExpText s \<Rightarrow> True"
    by simp
  from predict_salary_floor [OF h] h show ?thesis by blast
qed

section \<open>Quality score bounds\<close>



section \<open>Reading time\<close>

text \<open>
  C8 (as stated): the reading time is the word count at 200 words per minute rounded up to
  a whole minute, at least 1, so 2 minutes for 250 words. The code rounds to the nearest
  minute: a text of 250 words is reported as 1 minute; and the empty text is reported as 0.
\<close>

theorem reading_time_250_counterexample:
  "word_count (get_readability_stats (concat (replicate 250 ''word ''))) = 250
   \<and> reading_time_mins (get_readability_stats (concat (replicate 250 ''word ''))) = 1
   \<and> spec_reading_time (word_count (get_readability_stats (concat (replicate 250 ''word '')))) = 2
   \<and> reading_time_mins (get_readability_stats []) = 0"
proof -
  have w: "word_count_of (concat (replicate 250 ''word '')) = 250"
    unfolding word_count_of_def by (rule words_replicate)
  have s: "spec_reading_time 250 = 2" by code_simp
  have e: "reading_time_mins (get_readability_stats []) = 0"
    by (simp add: get_readability_stats_def)
  from stats_250 [OF w] s e show ?thesis by presburger
qed

text \<open>
  C8 (amended): for every non-empty text the reading time is at least 1 minute and is the
  whole number of minutes nearest to the word count divided by 200 (it differs from it by
  at most half a minute, where a count below 100 words is taken as 100); when two whole
  minutes are equally near, the even one is reported.
\<close>

theorem reading_time_nearest_minute:
  assumes "text \<noteq> []"
  shows "1 \<le> reading_time_mins (get_readability_stats text)
       \<and> \<bar>200 * reading_time_mins (get_readability_stats text)
           - int (max 100 (word_count (get_readability_stats text)))\<bar> \<le> 100
       \<and> (100 < word_count (get_readability_stats text)
            \<and> \<bar>200 * reading_time_mins (get_readability_stats text)
                - int (word_count (get_readability_stats text))\<bar> = 100
           \<longrightarrow> even (reading_time_mins (get_readability_stats text)))"
proof -
  define wc where "wc = word_count_of text"
  define r where "r = py_round (of_nat wc / 200)"
  have rt: "reading_time_mins (get_readability_stats text) = max 1 r"
    and w: "word_count (get_readability_stats text) = wc"
    using assms by (simp_all add: get_readability_stats_def Let_def wc_def r_def)
  have near: "\<bar>of_int r - (of_nat wc / 200 :: rat)\<bar> \<le> 1 / 2"
    unfolding r_def by (rule py_round_near)
  then have "\<bar>200 * of_int r - (of_nat wc :: rat)\<bar> \<le> 100"
    by (simp add: abs_le_iff field_simps)
  then have "\<bar>of_int (200 * r - int wc) :: rat\<bar> \<le> of_int 100" by simp
  then have n: "\<bar>200 * r - int wc\<bar> \<le> 100"
    unfolding of_int_abs [symmetric] of_int_le_iff .
  have tie: "even r" if "\<bar>200 * r - int wc\<bar> = 100"
  proof -
    from that have "\<bar>of_int (200 * r - int wc) :: rat\<bar> = of_int 100"
      unfolding of_int_abs [symmetric] by simp
    then have "\<bar>200 * of_int r - (of_nat wc :: rat)\<bar> = 100" by simp
    then have "\<bar>of_int r - (of_nat wc / 200 :: rat)\<bar> = 1 / 2"
      by (simp add: abs_if field_simps split: if_splits)
    then show ?thesis unfolding r_def by (rule py_round_tie)
  qed
  have a: "1 \<le> max 1 r" by simp
  have b: "\<bar>200 * max 1 r - int (max 100 wc)\<bar> \<le> 100"
    using n by (simp add: max_def abs_le_iff)
  have c: "even (max 1 r)" if h: "100 < wc" "\<bar>200 * max 1 r - int wc\<bar> = 100"
  proof -
    have "1 \<le> r" using n h(1) by (simp add: abs_le_iff)
    then have "max 1 r = r" by simp
    with h tie show ?thesis by simp
  qed
  show ?thesis using a b c unfolding rt w by blast
qed

theorem reading_time_nearest_minute_witness:
  "concat (replicate 300 ''word '') \<noteq> []
   \<and> word_count (get_readability_stats (concat (replicate 300 ''word ''))) = 300
   \<and> reading_time_mins (get_readability_stats (concat (replicate 300 ''word ''))) = 2"
proof -
  have ne: "concat (replicate 300 ''word '') \<noteq> []"
    using words_replicate_300 by (auto simp: word_count_of_def)
  have w: "word_count (get_readability_stats (concat (replicate 300 ''word ''))) = 300"
    using ne words_replicate_300 by (simp add: get_readability_stats_def Let_def)
  from reading_time_nearest_minute [OF ne] have
    "1 \<le> reading_time_mins (get_readability_stats (concat (replicate 300 ''word '')))"
    "\<bar>200 * reading_time_mins (get_readability_stats (concat (replicate 300 ''word ''))) - 300\<bar> \<le> 100"
    "\<bar>200 * reading_time_mins (get_readability_stats (concat (replicate 300 ''word ''))) - 300\<bar> = 100
       \<longrightarrow> even (reading_time_mins (get_readability_stats (concat (replicate 300 ''word ''))))"
    unfolding w by simp_all
  then have "reading_time_mins (get_readability_stats (concat (replicate 300 ''word ''))) = 2"
    by presburger
  with ne w show ?thesis by blast
qed

section \<open>Batch ranking\<close>

text \<open>
  C9: the ranking of a batch has one row per uploaded file, and every file whose text
  extraction returned an error string has its row in the ranking, with ATS score, match
  percentage, quality percentage, matched-skill count and total-skill count all zero.
\<close>

theorem batch_ranking_rows:
  "length (ranking_table re uploaded_files custom_skills job_description) = length uploaded_files
   \<and> (\<forall>file \<in> set uploaded_files.
        startswith (extract_text_from_pdf (content file)) ''Error'' \<longrightarrow>
        \<lparr>resume = name file, ats_score = 0, job_match = 0, quality = 0,
         matched_skills = 0, total_skills = 0\<rparr>
          \<in> set (ranking_table re uploaded_files custom_skills job_description))"
proof -
  define js where "js = (let extracted = extract_job_requirements re job_description
                         in if extracted = [] then default_skills else extracted)"
  have d: "ranking_data re uploaded_files custom_skills job_description
             = map (ranking_row_of re custom_skills js) uploaded_files"
    unfolding ranking_data_def js_def Let_def ..
  have len: "length (ranking_table re uploaded_files custom_skills job_description) = length uploaded_files"
    unfolding ranking_table_def d by simp
  have mem: "\<lparr>resume = name f, ats_score = 0, job_match = 0, quality = 0,
         matched_skills = 0, total_skills = 0\<rparr>
          \<in> set (ranking_table re uploaded_files custom_skills job_description)"
    if "f \<in> set uploaded_files" "startswith (extract_text_from_pdf (content f)) ''Error''" for f
  proof -
    have "ranking_row_of re custom_skills js f =
           \<lparr>resume = name f, ats_score = 0, job_match = 0, quality = 0,
            matched_skills = 0, total_skills = 0\<rparr>"
      using that(2) unfolding ranking_row_of_def Let_def by simp
    then have "\<lparr>resume = name f, ats_score = 0, job_match = 0, quality = 0,
            matched_skills = 0, total_skills = 0\<rparr> \<in> ranking_row_of re custom_skills js ` set uploaded_files"
      using that(1) by (metis imageI)
    then show ?thesis unfolding ranking_table_def d by simp
  qed
  show ?thesis using len mem by blast
qed


theorem batch_ranking_rows_witness:
  "length (ranking_table re_no_match
      [\<lparr>name = ''a.pdf'', content = Pages [Some ''Python developer, 5 years'']\<rparr>,
       \<lparr>name = ''b.pdf'', content = Pages []\<rparr>,
       \<lparr>name = ''c.pdf'', content = ReaderError ''EOF marker not found''\<rparr>]
      default_skills ''We are hiring a DevOps Engineer'') = 3
   \<and> \<lparr>resume = ''b.pdf'', ats_score = 0, job_match = 0, quality = 0,
       matched_skills = 0, total_skills = 0\<rparr>
       \<in> set (ranking_table re_no_match
          [\<lparr>name = ''a.pdf'', content = Pages [Some ''Python developer, 5 years'']\<rparr>,
           \<lparr>name = ''b.pdf'', content = Pages []\<rparr>,
           \<lparr>name = ''c.pdf'', content = ReaderError ''EOF marker not found''\<rparr>]
          default_skills ''We are hiring a DevOps Engineer'')"
proof -
  define fs where "fs = [\<lparr>name = ''a.pdf'', content = Pages [Some ''Python developer, 5 years'']\<rparr>,
       \<lparr>name = ''b.pdf'', content = Pages []\<rparr>,
       \<lparr>name = ''c.pdf'', content = ReaderError ''EOF marker not found''\<rparr>]"
  have e: "startswith (extract_text_from_pdf (content \<lparr>name = ''b.pdf'', content = Pages []\<rparr>)) ''Error''"
    by (simp add: extract_text_from_pdf_def startswith_def)
  have m: "\<lparr>name = ''b.pdf'', content = Pages []\<rparr> \<in> set fs"
    unfolding fs_def by simp
  have l: "length fs = 3" unfolding fs_def by simp
  from batch_ranking_rows [of re_no_match fs default_skills "''We are hiring a DevOps Engineer''"]
  have "length (ranking_table re_no_match fs default_skills ''We are hiring a DevOps Engineer'') = 3"
    and "\<forall>f \<in> set fs.
        startswith (extract_text_from_pdf (content f)) ''Error'' \<longrightarrow>
        \<lparr>resume = name f, ats_score = 0, job_match = 0, quality = 0,
         matched_skills = 0, total_skills = 0\<rparr>
          \<in> set (ranking_table re_no_match fs default_skills ''We are hiring a DevOps Engineer'')"
    using l by simp_all
  from this(1) this(2) [rule_format, OF m e] show ?thesis
    unfolding fs_def by simp
qed

end
